theory Spec2Isabelle
  imports Complex_Main "HOL-Library.AList" "HOL-Library.Sublist"
begin

section \<open>Data model of \<open>dashboard_app.py\<close>\<close>

text \<open>
  A pandas cell is a number, a string or a missing value. \<open>Missing\<close> is the
  \<open>NaN\<close> of a frame and the \<open>None\<close> of a dict: every comparison of a series with
  a value gives \<open>False\<close> on either. The comparison of two dicts tells them apart by
  the objects that hold them, which \<open>dict_ne\<close> below takes as an input.
  Numbers are rationals (Python's \<open>True\<close> and \<open>False\<close> are the numbers 1 and 0);
  infinities and values beyond 64 bits are left out.
\<close>

datatype cell = Missing | Num rat | Str string

text \<open>The exceptions the modelled functions can raise.\<close>

datatype error = KeyError string | ValueError

text \<open>
  A row is an association list from column name to cell (a pandas row keeps the column
  order); a \<open>DataFrame\<close> is its column index and its rows in order. A Python
  \<open>dict\<close> (the map filter, the session state) is a map, so that equality of dicts is
  equality of their contents.
\<close>

type_synonym row = "(string \<times> cell) list"

record dataframe =
  columns :: "string list"
  rows :: "row list"

type_synonym pydict = "string \<rightharpoonup> cell"

type_synonym session_state = "string \<rightharpoonup> pydict"

text \<open>
  Two conversions belong to the libraries, not to the repository, and are parameters of
  the model: what \<open>pd.to_numeric\<close> reads from a string (\<open>None\<close> when it coerces
  to \<open>NaN\<close>), and what Python's \<open>int\<close> reads from a string (\<open>None\<close> when it
  raises \<open>ValueError\<close>).
\<close>

record pylib =
  numeric_of_str :: "string \<Rightarrow> rat option"
  int_of_str :: "string \<Rightarrow> int option"

section \<open>The pandas operations the program calls\<close>

definition bind_err :: "error + 'a \<Rightarrow> ('a \<Rightarrow> error + 'b) \<Rightarrow> error + 'b" where
  "bind_err m f = (case m of Inl e \<Rightarrow> Inl e | Inr x \<Rightarrow> f x)"

fun mapM_err :: "('a \<Rightarrow> error + 'b) \<Rightarrow> 'a list \<Rightarrow> error + 'b list" where
  "mapM_err f [] = Inr []"
| "mapM_err f (x # xs) =
     bind_err (f x) (\<lambda>y. bind_err (mapM_err f xs) (\<lambda>ys. Inr (y # ys)))"

text \<open>The cell of a row under a column; a row that has none holds \<open>NaN\<close> there.\<close>

definition cell_at :: "row \<Rightarrow> string \<Rightarrow> cell" where
  "cell_at r c = (case map_of r c of None \<Rightarrow> Missing | Some v \<Rightarrow> v)"

text \<open>\<open>d[c]\<close>: the column as a series, \<open>KeyError\<close> when the frame has no such column.\<close>

definition getitem :: "dataframe \<Rightarrow> string \<Rightarrow> error + cell list" where
  "getitem d c =
     (if c \<in> set (columns d) then Inr (map (\<lambda>r. cell_at r c) (rows d))
      else Inl (KeyError c))"

text \<open>\<open>d[c] = series\<close>: the column is replaced in place, or appended when new.\<close>

definition setitem :: "dataframe \<Rightarrow> string \<Rightarrow> cell list \<Rightarrow> dataframe" where
  "setitem d c vs =
     d\<lparr>columns := (if c \<in> set (columns d) then columns d else columns d @ [c]),
       rows := map (\<lambda>(r, v). AList.update c v r) (zip (rows d) vs)\<rparr>"

text \<open>\<open>pd.to_numeric(series, errors="coerce")\<close>, cell by cell.\<close>

definition to_numeric_cell :: "pylib \<Rightarrow> cell \<Rightarrow> cell" where
  "to_numeric_cell L v =
     (case v of
        Str s \<Rightarrow> (case numeric_of_str L s of None \<Rightarrow> Missing | Some q \<Rightarrow> Num q)
      | _ \<Rightarrow> v)"

definition to_numeric :: "pylib \<Rightarrow> cell list \<Rightarrow> cell list" where
  "to_numeric L s = map (to_numeric_cell L) s"

text \<open>\<open>d.dropna(subset=cs)\<close>: a row stays when none of the named cells is missing.\<close>

definition dropna :: "dataframe \<Rightarrow> string list \<Rightarrow> dataframe" where
  "dropna d cs = d\<lparr>rows := filter (\<lambda>r. \<forall>c \<in> set cs. cell_at r c \<noteq> Missing) (rows d)\<rparr>"

text \<open>\<open>series == v\<close>: a missing value on either side compares unequal.\<close>

definition cell_eq :: "cell \<Rightarrow> cell \<Rightarrow> bool" where
  "cell_eq a b = (a \<noteq> Missing \<and> b \<noteq> Missing \<and> a = b)"

definition series_eq :: "cell list \<Rightarrow> cell \<Rightarrow> bool list" where
  "series_eq s v = map (\<lambda>a. cell_eq a v) s"

text \<open>\<open>m1 & m2\<close> on boolean series.\<close>

definition mask_and :: "bool list \<Rightarrow> bool list \<Rightarrow> bool list" where
  "mask_and m1 m2 = map (\<lambda>(a, b). a \<and> b) (zip m1 m2)"

text \<open>\<open>d[mask]\<close>: the rows whose mask entry is true, in order.\<close>

definition loc_mask :: "dataframe \<Rightarrow> bool list \<Rightarrow> dataframe" where
  "loc_mask d m = d\<lparr>rows := map fst (filter snd (zip (rows d) m))\<rparr>"

text \<open>\<open>series.fillna(0)\<close>.\<close>

definition fillna0 :: "cell list \<Rightarrow> cell list" where
  "fillna0 s = map (\<lambda>a. if a = Missing then Num 0 else a) s"

text \<open>
  \<open>series.astype(int)\<close>: a number is truncated towards zero, a string goes through
  \<open>int\<close>, a missing value raises; one failing cell fails the whole cast.
\<close>

definition trunc_rat :: "rat \<Rightarrow> int" where
  "trunc_rat q = (if 0 \<le> q then \<lfloor>q\<rfloor> else \<lceil>q\<rceil>)"

definition int_of_cell :: "pylib \<Rightarrow> cell \<Rightarrow> error + int" where
  "int_of_cell L v =
     (case v of
        Missing \<Rightarrow> Inl ValueError
      | Num q \<Rightarrow> Inr (trunc_rat q)
      | Str s \<Rightarrow> (case int_of_str L s of None \<Rightarrow> Inl ValueError | Some i \<Rightarrow> Inr i))"

definition astype_int :: "pylib \<Rightarrow> cell list \<Rightarrow> error + int list" where
  "astype_int L s = mapM_err (int_of_cell L) s"

text \<open>\<open>dict.get(k, default)\<close>; the default \<open>None\<close> is \<open>Missing\<close>.\<close>

definition dict_get :: "pydict \<Rightarrow> string \<Rightarrow> cell \<Rightarrow> cell" where
  "dict_get mf k dflt = (case mf k of None \<Rightarrow> dflt | Some v \<Rightarrow> v)"

section \<open>Load\<close>



section \<open>Selection state (map filter)\<close>

definition all_filter :: pydict where
  "all_filter = [''kind'' \<mapsto> Str ''ALL'']"

text \<open>\<open>st.session_state.get("map_filter", {"kind": "ALL"})\<close>.\<close>

definition current_filter :: "session_state \<Rightarrow> pydict" where
  "current_filter s = (case s ''map_filter'' of None \<Rightarrow> all_filter | Some f \<Rightarrow> f)"


text \<open>
  Both operations return the new session state and whether \<open>st.rerun()\<close> was called.
\<close>

definition reset_map :: "session_state \<Rightarrow> session_state \<times> bool" where
  "reset_map s =
     (let prev = current_filter s;
          new = all_filter
      in (s(''map_filter'' \<mapsto> new), prev \<noteq> new))"

text \<open>
  \<open>prev != new\<close> on dicts. Python takes two dicts as equal when they have the same keys
  and hold, under each key, values that are the same object or compare equal. Numbers and
  strings compare by value. \<open>NaN\<close> compares unequal to everything, itself included,
  and \<open>None\<close> equals only \<open>None\<close>, which is one object: two missing values count as
  equal exactly when they are the same object. A cell does not record the object that
  holds it, so whether the missing values under a key of the two dicts are the same
  object is the input \<open>same\<close>. In \<open>reset_map\<close> the new dict holds no missing value,
  and the comparison is the one of the contents.
\<close>

definition value_eq :: "bool \<Rightarrow> cell \<Rightarrow> cell \<Rightarrow> bool" where
  "value_eq same_object a b =
     (if a = Missing \<or> b = Missing then a = b \<and> same_object else a = b)"

definition dict_ne :: "(string \<Rightarrow> bool) \<Rightarrow> pydict \<Rightarrow> pydict \<Rightarrow> bool" where
  "dict_ne same d1 d2 =
     (\<not> (\<forall>k. case d1 k of
                None \<Rightarrow> d2 k = None
              | Some a \<Rightarrow> (case d2 k of None \<Rightarrow> False | Some b \<Rightarrow> value_eq (same k) a b)))"

text \<open>\<open>{"kind": kind, **payload}\<close>: a \<open>kind\<close> key of the payload wins.\<close>

definition set_map_filter ::
  "(string \<Rightarrow> bool) \<Rightarrow> string \<Rightarrow> pydict \<Rightarrow> session_state \<Rightarrow> session_state \<times> bool" where
  "set_map_filter same kind payload s =
     (let prev = current_filter s;
          new = [''kind'' \<mapsto> Str kind] ++ payload
      in (s(''map_filter'' \<mapsto> new), dict_ne same prev new))"

section \<open>Map filtering logic\<close>

definition filtered_points :: "pylib \<Rightarrow> dataframe \<Rightarrow> pydict \<Rightarrow> error + dataframe" where
  "filtered_points L df_snip mf =
     (if \<not> {''latitud'', ''longitud''} \<subseteq> set (columns df_snip)
      then Inr (df_snip\<lparr>rows := []\<rparr>)
      else
        bind_err (getitem df_snip ''latitud'') (\<lambda>lat.
        let d1 = setitem df_snip ''latitud'' (to_numeric L lat) in
        bind_err (getitem d1 ''longitud'') (\<lambda>lon.
        let d2 = setitem d1 ''longitud'' (to_numeric L lon);
            d = dropna d2 [''latitud'', ''longitud''];
            kind = dict_get mf ''kind'' (Str ''ALL'')
        in
          if kind = Str ''ALL'' then Inr d
          else if kind = Str ''SNIP'' then
            bind_err (getitem d ''snip'') (\<lambda>s.
            Inr (loc_mask d (series_eq s (dict_get mf ''snip'' Missing))))
          else if kind = Str ''MUNICIPIO'' then
            bind_err (getitem d ''departamento'') (\<lambda>dep.
            bind_err (getitem d ''municipio'') (\<lambda>mun.
            Inr (loc_mask d
              (mask_and (series_eq dep (dict_get mf ''departamento'' Missing))
                        (series_eq mun (dict_get mf ''municipio'' Missing))))))
          else if kind = Str ''CODEDE'' then
            bind_err (getitem d ''departamento'') (\<lambda>dep.
            Inr (loc_mask d (series_eq dep (dict_get mf ''departamento'' Missing))))
          else if kind = Str ''ENTIDAD'' then
            bind_err (getitem d ''entidad_ejecutora'') (\<lambda>ee.
            Inr (loc_mask d (series_eq ee (dict_get mf ''entidad_ejecutora'' Missing))))
          else if kind = Str ''ESTADO'' then
            bind_err (getitem d ''estado_auditoria'') (\<lambda>ea.
            Inr (loc_mask d (series_eq ea (dict_get mf ''estado_auditoria'' Missing))))
          else if kind = Str ''FLAG_INCONSISTENCIA'' then
            bind_err (getitem d ''flag_inconsistencia_estado_momento'') (\<lambda>fl.
            bind_err (astype_int L (fillna0 fl)) (\<lambda>fi.
            Inr (loc_mask d (map (\<lambda>i. i = 1) fi))))
          else Inr d)))"

section \<open>Rendering\<close>

text \<open>
  \<open>render_map\<close> either shows the notice of an empty selection or draws the map. What the
  widgets compute (the median of a series, the marker and popup of a row) is a parameter;
  the model keeps the order of the steps, the cap and the counts of the caption.
\<close>

record ('c, 'm) widgets =
  series_median :: "cell list \<Rightarrow> error + 'c"
  circle_marker :: "row \<Rightarrow> error + 'm"

datatype ('c, 'm) rendered =
    Info string
  | MapView string "'c \<times> 'c" "'m list" nat nat

definition df_empty :: "dataframe \<Rightarrow> bool" where
  "df_empty d = (rows d = [] \<or> columns d = [])"

definition max_markers :: nat where
  "max_markers = 5000"

definition head_df :: "dataframe \<Rightarrow> nat \<Rightarrow> dataframe" where
  "head_df d n = d\<lparr>rows := take n (rows d)\<rparr>"

definition render_map ::
  "('c, 'm) widgets \<Rightarrow> dataframe \<Rightarrow> string \<Rightarrow> error + ('c, 'm) rendered" where
  "render_map W df_points title =
     (if df_empty df_points then Inr (Info ''No hay puntos para el filtro actual.'')
      else
        bind_err (getitem df_points ''latitud'') (\<lambda>lat.
        bind_err (series_median W lat) (\<lambda>center_lat.
        bind_err (getitem df_points ''longitud'') (\<lambda>lon.
        bind_err (series_median W lon) (\<lambda>center_lon.
        let pts = head_df df_points max_markers in
        bind_err (mapM_err (circle_marker W) (rows pts)) (\<lambda>ms.
        Inr (MapView title (center_lat, center_lon) ms
               (length (rows df_points))
               (min (length (rows df_points)) max_markers))))))))"

section \<open>Global KPIs\<close>




section \<open>The marker of a row\<close>






section \<open>One run of the script, up to the map\<close>



section \<open>Notions used to state the properties\<close>

text \<open>
  What the coordinate stage of \<open>filtered_points\<close> does to one row: both coordinate
  cells are replaced by their numeric coercion, and the row is kept when neither is
  missing afterwards. \<open>coord_frame\<close> is the frame after that stage.
\<close>

definition coerce_coords :: "pylib \<Rightarrow> row \<Rightarrow> row" where
  "coerce_coords L r =
     AList.update ''longitud'' (to_numeric_cell L (cell_at r ''longitud''))
       (AList.update ''latitud'' (to_numeric_cell L (cell_at r ''latitud'')) r)"

definition has_coords :: "pylib \<Rightarrow> row \<Rightarrow> bool" where
  "has_coords L r =
     (to_numeric_cell L (cell_at r ''latitud'') \<noteq> Missing \<and>
      to_numeric_cell L (cell_at r ''longitud'') \<noteq> Missing)"

definition coord_frame :: "pylib \<Rightarrow> dataframe \<Rightarrow> dataframe" where
  "coord_frame L df = df\<lparr>rows := map (coerce_coords L) (filter (has_coords L) (rows df))\<rparr>"

text \<open>
  A row that has both coordinates, and a row whose coordinate cells are already numbers
  or \<open>NaN\<close>.
\<close>

definition coords_present :: "row \<Rightarrow> bool" where
  "coords_present r = (cell_at r ''latitud'' \<noteq> Missing \<and> cell_at r ''longitud'' \<noteq> Missing)"

definition coords_numeric :: "row \<Rightarrow> bool" where
  "coords_numeric r =
     ((case map_of r ''latitud'' of Some (Str s) \<Rightarrow> False | None \<Rightarrow> False | _ \<Rightarrow> True) \<and>
      (case map_of r ''longitud'' of Some (Str s) \<Rightarrow> False | None \<Rightarrow> False | _ \<Rightarrow> True))"

text \<open>
  The predicate that each kind of filter applies to a row that passed the coordinate
  stage, read off the branches of \<open>filtered_points\<close>; the columns that each kind
  reads; the kinds that \<open>filtered_points\<close> tells apart.
\<close>

definition flag_is_one :: "pylib \<Rightarrow> cell \<Rightarrow> bool" where
  "flag_is_one L a = (int_of_cell L (if a = Missing then Num 0 else a) = Inr 1)"

definition row_selected :: "pylib \<Rightarrow> pydict \<Rightarrow> row \<Rightarrow> bool" where
  "row_selected L mf r =
     (let kind = dict_get mf ''kind'' (Str ''ALL'') in
      if kind = Str ''ALL'' then True
      else if kind = Str ''SNIP'' then
        cell_eq (cell_at r ''snip'') (dict_get mf ''snip'' Missing)
      else if kind = Str ''MUNICIPIO'' then
        cell_eq (cell_at r ''departamento'') (dict_get mf ''departamento'' Missing) \<and>
        cell_eq (cell_at r ''municipio'') (dict_get mf ''municipio'' Missing)
      else if kind = Str ''CODEDE'' then
        cell_eq (cell_at r ''departamento'') (dict_get mf ''departamento'' Missing)
      else if kind = Str ''ENTIDAD'' then
        cell_eq (cell_at r ''entidad_ejecutora'') (dict_get mf ''entidad_ejecutora'' Missing)
      else if kind = Str ''ESTADO'' then
        cell_eq (cell_at r ''estado_auditoria'') (dict_get mf ''estado_auditoria'' Missing)
      else if kind = Str ''FLAG_INCONSISTENCIA'' then
        flag_is_one L (cell_at r ''flag_inconsistencia_estado_momento'')
      else True)"

definition filter_columns :: "string \<Rightarrow> string list" where
  "filter_columns kind =
     (if kind = ''SNIP'' then [''snip'']
      else if kind = ''MUNICIPIO'' then [''departamento'', ''municipio'']
      else if kind = ''CODEDE'' then [''departamento'']
      else if kind = ''ENTIDAD'' then [''entidad_ejecutora'']
      else if kind = ''ESTADO'' then [''estado_auditoria'']
      else if kind = ''FLAG_INCONSISTENCIA'' then [''flag_inconsistencia_estado_momento'']
      else [])"


definition known_kinds :: "string list" where
  "known_kinds = [''ALL'', ''SNIP'', ''MUNICIPIO'', ''CODEDE'', ''ENTIDAD'', ''ESTADO'',
                  ''FLAG_INCONSISTENCIA'']"

text \<open>
  The flag as the specification words it (truthy, a missing value counting as false), and
  the values that a boolean flag takes in the frame.
\<close>

definition flag_truthy :: "cell \<Rightarrow> bool" where
  "flag_truthy a = (case a of Missing \<Rightarrow> False | Num q \<Rightarrow> q \<noteq> 0 | Str s \<Rightarrow> s \<noteq> [])"

definition flag_boolean :: "cell \<Rightarrow> bool" where
  "flag_boolean a = (a = Missing \<or> a = Num 0 \<or> a = Num 1)"

text \<open>
  The filter that \<open>set_map_filter\<close> builds, and the notice of \<open>render_map\<close>.
\<close>

definition new_filter :: "string \<Rightarrow> pydict \<Rightarrow> pydict" where
  "new_filter kind payload = [''kind'' \<mapsto> Str kind] ++ payload"

definition no_points_notice :: string where
  "no_points_notice = ''No hay puntos para el filtro actual.''"

text \<open>
  Concrete inputs on which the statements below are evaluated. Of the two library
  conversions only the values used are given: \<open>pd.to_numeric\<close> reads 14.5 from the
  text \<open>14.5\<close> and \<open>int\<close> reads 1 from the text \<open>1\<close>; the widgets return a
  fixed centre and the row itself as its marker. With \<open>demo_fresh\<close> no value of the
  new filter is an object of the previous one.
\<close>

definition demo_lib :: pylib where
  "demo_lib = \<lparr>numeric_of_str = (\<lambda>s. if s = ''14.5'' then Some (29 / 2) else None),
               int_of_str = (\<lambda>s. if s = ''1'' then Some 1 else None)\<rparr>"

definition demo_columns :: "string list" where
  "demo_columns = [''snip'', ''departamento'', ''latitud'', ''longitud'',
                   ''flag_inconsistencia_estado_momento'']"

definition demo_text_points :: dataframe where
  "demo_text_points =
     \<lparr>columns = demo_columns,
      rows = [[(''snip'', Num 1), (''departamento'', Str ''Guatemala''),
               (''latitud'', Str ''14.5''), (''longitud'', Num (- 90)),
               (''flag_inconsistencia_estado_momento'', Num 1)],
              [(''snip'', Num 2), (''departamento'', Str ''Peten''),
               (''latitud'', Str ''abc''), (''longitud'', Num (- 91)),
               (''flag_inconsistencia_estado_momento'', Missing)]]\<rparr>"

definition demo_points :: dataframe where
  "demo_points =
     \<lparr>columns = demo_columns,
      rows = [[(''snip'', Num 1), (''departamento'', Str ''Guatemala''),
               (''latitud'', Num (29 / 2)), (''longitud'', Num (- 90)),
               (''flag_inconsistencia_estado_momento'', Num 1)],
              [(''snip'', Num 2), (''departamento'', Str ''Peten''),
               (''latitud'', Missing), (''longitud'', Num (- 91)),
               (''flag_inconsistencia_estado_momento'', Num 1)],
              [(''snip'', Num 3), (''departamento'', Str ''Guatemala''),
               (''latitud'', Num 15), (''longitud'', Num (- 91)),
               (''flag_inconsistencia_estado_momento'', Missing)]]\<rparr>"

definition demo_no_latitud :: dataframe where
  "demo_no_latitud =
     \<lparr>columns = [''snip'', ''longitud''],
      rows = [[(''snip'', Num 1), (''longitud'', Num (- 90))],
              [(''snip'', Num 2), (''longitud'', Num (- 91))]]\<rparr>"

definition demo_many :: dataframe where
  "demo_many =
     \<lparr>columns = [''latitud'', ''longitud''],
      rows = replicate 5001 [(''latitud'', Num 15), (''longitud'', Num (- 90))]\<rparr>"

definition demo_fresh :: "string \<Rightarrow> bool" where
  "demo_fresh k = False"


definition demo_session :: session_state where
  "demo_session = [''map_filter'' \<mapsto> [''kind'' \<mapsto> Str ''SNIP'', ''snip'' \<mapsto> Num 12345]]"

definition demo_widgets :: "(rat, row) widgets" where
  "demo_widgets = \<lparr>series_median = (\<lambda>s. Inr 0), circle_marker = (\<lambda>r. Inr r)\<rparr>"





section \<open>The pandas operations, row by row\<close>

lemma cell_at_update:
  "cell_at (AList.update k v r) c = (if c = k then v else cell_at r c)"
  by (simp add: cell_at_def update_conv')

lemma zip_map_self: "map (\<lambda>(r, v). g r v) (zip xs (map f xs)) = map (\<lambda>r. g r (f r)) xs"
  by (induction xs) simp_all

lemma mask_filter: "map fst (filter snd (zip xs (map p xs))) = filter p xs"
  by (induction xs) simp_all

lemma cell_at_coerce:
  "cell_at (coerce_coords L r) c =
     (if c = ''longitud'' then to_numeric_cell L (cell_at r ''longitud'')
      else if c = ''latitud'' then to_numeric_cell L (cell_at r ''latitud'')
      else cell_at r c)"
  by (simp add: coerce_coords_def cell_at_update)

lemma rows_setitem_to_numeric:
  "rows (setitem d c (to_numeric L (map (\<lambda>r. cell_at r k) (rows d)))) =
     map (\<lambda>r. AList.update c (to_numeric_cell L (cell_at r k)) r) (rows d)"
proof -
  have "to_numeric L (map (\<lambda>r. cell_at r k) (rows d)) =
          map (\<lambda>r. to_numeric_cell L (cell_at r k)) (rows d)"
    by (simp add: to_numeric_def)
  then show ?thesis
    by (simp add: setitem_def zip_map_self [where xs = "rows d"])
qed

lemma columns_setitem: "c \<in> set (columns d) \<Longrightarrow> columns (setitem d c vs) = columns d"
  by (simp add: setitem_def)

lemma more_setitem: "dataframe.more (setitem d c vs) = dataframe.more d"
  by (simp add: setitem_def)

lemma coord_stage:
  assumes "''latitud'' \<in> set (columns df)" and "''longitud'' \<in> set (columns df)"
  shows "dropna
           (setitem (setitem df ''latitud'' (to_numeric L (map (\<lambda>r. cell_at r ''latitud'') (rows df))))
              ''longitud''
              (to_numeric L (map (\<lambda>r. cell_at r ''longitud'')
                 (rows (setitem df ''latitud''
                    (to_numeric L (map (\<lambda>r. cell_at r ''latitud'') (rows df))))))))
           [''latitud'', ''longitud'']
         = coord_frame L df"
proof -
  let ?d1 = "setitem df ''latitud'' (to_numeric L (map (\<lambda>r. cell_at r ''latitud'') (rows df)))"
  let ?d2 = "setitem ?d1 ''longitud'' (to_numeric L (map (\<lambda>r. cell_at r ''longitud'') (rows ?d1)))"
  have r1: "rows ?d1 = map (\<lambda>r. AList.update ''latitud'' (to_numeric_cell L (cell_at r ''latitud'')) r) (rows df)"
    by (rule rows_setitem_to_numeric)
  have "rows ?d2 = map (\<lambda>r. AList.update ''longitud'' (to_numeric_cell L (cell_at r ''longitud'')) r) (rows ?d1)"
    by (rule rows_setitem_to_numeric)
  then have r2: "rows ?d2 = map (coerce_coords L) (rows df)"
    by (simp add: r1 comp_def cell_at_update coerce_coords_def)
  have c2: "columns ?d2 = columns df"
    using assms by (simp add: columns_setitem)
  have m2: "dataframe.more ?d2 = dataframe.more df"
    by (simp add: more_setitem)
  have f: "filter (\<lambda>r. \<forall>c \<in> set [''latitud'', ''longitud'']. cell_at r c \<noteq> Missing)
             (map (coerce_coords L) (rows df))
           = map (coerce_coords L) (filter (has_coords L) (rows df))"
    by (simp add: filter_map comp_def cell_at_coerce has_coords_def [abs_def])
  show "dropna ?d2 [''latitud'', ''longitud''] = coord_frame L df"
    unfolding dropna_def coord_frame_def r2 f
    by (rule dataframe.equality) (simp_all add: c2 m2)
qed


lemma mask_and_maps:
  "map (\<lambda>(a, b). a \<and> b) (zip (map p xs) (map q xs)) = map (\<lambda>x. p x \<and> q x) xs"
  by (induction xs) simp_all

lemma loc_mask_series_eq:
  "loc_mask d (series_eq (map (\<lambda>r. cell_at r c) (rows d)) v) =
     d\<lparr>rows := filter (\<lambda>r. cell_eq (cell_at r c) v) (rows d)\<rparr>"
proof -
  have "series_eq (map (\<lambda>r. cell_at r c) (rows d)) v = map (\<lambda>r. cell_eq (cell_at r c) v) (rows d)"
    by (simp add: series_eq_def)
  then show ?thesis
    by (simp add: loc_mask_def mask_filter)
qed

lemma loc_mask_and_series_eq:
  "loc_mask d (mask_and (series_eq (map (\<lambda>r. cell_at r c1) (rows d)) v1)
                        (series_eq (map (\<lambda>r. cell_at r c2) (rows d)) v2)) =
     d\<lparr>rows := filter (\<lambda>r. cell_eq (cell_at r c1) v1 \<and> cell_eq (cell_at r c2) v2) (rows d)\<rparr>"
proof -
  have "mask_and (series_eq (map (\<lambda>r. cell_at r c1) (rows d)) v1)
                 (series_eq (map (\<lambda>r. cell_at r c2) (rows d)) v2)
        = map (\<lambda>r. cell_eq (cell_at r c1) v1 \<and> cell_eq (cell_at r c2) v2) (rows d)"
    by (simp add: mask_and_def series_eq_def mask_and_maps)
  then show ?thesis
    by (simp add: loc_mask_def mask_filter)
qed

lemma mapM_err_Inr:
  "mapM_err f xs = Inr ys \<Longrightarrow> map f xs = map Inr ys"
proof (induction xs arbitrary: ys)
  case Nil
  then show ?case by simp
next
  case (Cons x xs)
  then show ?case
    by (auto simp: bind_err_def split: sum.splits)
qed

lemma mapM_err_total:
  "(\<forall>x \<in> set xs. \<exists>y. f x = Inr y) \<Longrightarrow> \<exists>ys. mapM_err f xs = Inr ys"
  by (induction xs) (auto simp: bind_err_def split: sum.splits)

lemma mask_filter_gen:
  "map g xs = map Inr ys \<Longrightarrow>
   map fst (filter snd (zip xs (map p ys))) = filter (\<lambda>x. \<exists>y. g x = Inr y \<and> p y) xs"
proof (induction xs arbitrary: ys)
  case Nil
  then show ?case by simp
next
  case (Cons x xs)
  then obtain y ys' where ys: "ys = y # ys'" "g x = Inr y" "map g xs = map Inr ys'"
    by (cases ys) auto
  with Cons.IH [of ys'] show ?case by simp
qed

lemma loc_mask_flag:
  assumes "astype_int L (fillna0 (map (\<lambda>r. cell_at r c) (rows d))) = Inr fi"
  shows "loc_mask d (map (\<lambda>i. i = 1) fi) =
           d\<lparr>rows := filter (\<lambda>r. flag_is_one L (cell_at r c)) (rows d)\<rparr>"
proof -
  let ?g = "\<lambda>r. int_of_cell L (if cell_at r c = Missing then Num 0 else cell_at r c)"
  have "map ?g (rows d) = map Inr fi"
    using mapM_err_Inr [OF assms [unfolded astype_int_def]]
    by (simp add: fillna0_def comp_def Let_def)
  from mask_filter_gen [OF this, of "\<lambda>i. i = 1"]
  show ?thesis
    by (simp add: loc_mask_def flag_is_one_def)
qed

lemma filtered_points_no_coords:
  "\<not> {''latitud'', ''longitud''} \<subseteq> set (columns df) \<Longrightarrow>
   filtered_points L df mf = Inr (df\<lparr>rows := []\<rparr>)"
  by (simp add: filtered_points_def)

lemmas fp_simps = filtered_points_def getitem_def bind_err_def coord_stage columns_setitem

lemma columns_coord_frame: "columns (coord_frame L df) = columns df"
  by (simp add: coord_frame_def)

lemma filtered_points_selected:
  assumes "''latitud'' \<in> set (columns df)" and "''longitud'' \<in> set (columns df)"
    and "filtered_points L df mf = Inr out"
  shows "out = (coord_frame L df)\<lparr>rows := filter (row_selected L mf) (rows (coord_frame L df))\<rparr>"
  using assms
  by (auto simp: fp_simps Let_def columns_coord_frame loc_mask_series_eq loc_mask_and_series_eq
        row_selected_def [abs_def] loc_mask_flag
      split: if_splits sum.splits)

lemma filtered_points_cong:
  assumes "columns df' = columns df" and "coord_frame L df' = coord_frame L df"
  shows "filtered_points L df' mf = filtered_points L df mf"
proof (cases "{''latitud'', ''longitud''} \<subseteq> set (columns df)")
  case True
  then have "''latitud'' \<in> set (columns df)" "''longitud'' \<in> set (columns df)" by simp_all
  moreover from this have "''latitud'' \<in> set (columns df')" "''longitud'' \<in> set (columns df')"
    using assms by simp_all
  ultimately show ?thesis
    using assms(2) by (simp add: fp_simps Let_def)
next
  case False
  then show ?thesis
    using assms by (simp add: filtered_points_no_coords)
qed

lemmas demo_simps = demo_lib_def demo_columns_def demo_text_points_def demo_points_def
  all_filter_def filtered_points_def getitem_def setitem_def bind_err_def to_numeric_def
  to_numeric_cell_def dropna_def cell_at_def dict_get_def loc_mask_def series_eq_def
  cell_eq_def mask_and_def fillna0_def astype_int_def int_of_cell_def trunc_rat_def

lemma coerce_coords_numeric: "coords_numeric r \<Longrightarrow> coerce_coords L r = r"
  by (auto simp: coords_numeric_def coerce_coords_def cell_at_def to_numeric_cell_def
        update_triv update_conv' split: option.splits cell.splits)

lemma rows_filtered_points:
  assumes "filtered_points L df mf = Inr out"
  shows "rows out = map (coerce_coords L)
           (filter (\<lambda>r. {''latitud'', ''longitud''} \<subseteq> set (columns df) \<and> has_coords L r \<and>
                         row_selected L mf (coerce_coords L r)) (rows df))"
proof (cases "{''latitud'', ''longitud''} \<subseteq> set (columns df)")
  case True
  then have "''latitud'' \<in> set (columns df)" "''longitud'' \<in> set (columns df)" by simp_all
  from filtered_points_selected [OF this assms] True show ?thesis
    by (simp add: coord_frame_def filter_map comp_def)
next
  case False
  with assms show ?thesis
    by (auto simp: filtered_points_no_coords)
qed

lemma columns_filtered_points:
  assumes "filtered_points L df mf = Inr out"
  shows "columns out = columns df"
proof (cases "{''latitud'', ''longitud''} \<subseteq> set (columns df)")
  case True
  then have "''latitud'' \<in> set (columns df)" "''longitud'' \<in> set (columns df)" by simp_all
  from filtered_points_selected [OF this assms] show ?thesis
    by (simp add: coord_frame_def)
next
  case False
  with assms show ?thesis
    by (auto simp: filtered_points_no_coords)
qed

section \<open>C1: the selection against the input records\<close>

text \<open>
  C1, as stated, fails: when the latitude column holds text, the record that
  \<open>filtered_points\<close> returns carries the number read from the text, and is no
  record of the input.
\<close>

theorem filtered_points_alters_text_coordinate:
  "filtered_points demo_lib demo_text_points all_filter =
     Inr \<lparr>columns = demo_columns,
          rows = [[(''snip'', Num 1), (''departamento'', Str ''Guatemala''),
                   (''latitud'', Num (29 / 2)), (''longitud'', Num (- 90)),
                   (''flag_inconsistencia_estado_momento'', Num 1)]]\<rparr> \<and>
   [(''snip'', Num 1), (''departamento'', Str ''Guatemala''),
    (''latitud'', Num (29 / 2)), (''longitud'', Num (- 90)),
    (''flag_inconsistencia_estado_momento'', Num 1)] \<notin> set (rows demo_text_points)"
  by (simp add: demo_simps)

text \<open>
  C1 (amended): whenever \<open>filtered_points\<close> returns, its columns are those of the
  input and its records are, in the order of the input, records of the input with the
  latitude and longitude cells replaced by their numeric coercion; when the coordinate
  cells of the input are already numbers or \<open>NaN\<close> the output is a subsequence of
  the input records themselves.
\<close>

theorem filtered_points_subseq_coerced:
  assumes "filtered_points L df mf = Inr out"
  shows "columns out = columns df \<and>
         subseq (rows out) (map (coerce_coords L) (rows df)) \<and>
         ((\<forall>r \<in> set (rows df). coords_numeric r) \<longrightarrow> subseq (rows out) (rows df))"
proof -
  let ?P = "\<lambda>r. {''latitud'', ''longitud''} \<subseteq> set (columns df) \<and> has_coords L r \<and>
                 row_selected L mf (coerce_coords L r)"
  have r: "rows out = map (coerce_coords L) (filter ?P (rows df))"
    by (rule rows_filtered_points [OF assms])
  have 1: "subseq (rows out) (map (coerce_coords L) (rows df))"
    unfolding r by (simp add: subseq_map)
  have 2: "subseq (rows out) (rows df)" if "\<forall>r \<in> set (rows df). coords_numeric r"
  proof -
    have "map (coerce_coords L) (filter ?P (rows df)) = map (\<lambda>r. r) (filter ?P (rows df))"
      using that by (intro map_cong refl) (simp add: coerce_coords_numeric)
    then show ?thesis
      unfolding r by simp
  qed
  from 1 2 columns_filtered_points [OF assms] show ?thesis by blast
qed

text \<open>The amended C1 on a frame with numeric coordinates.\<close>

theorem filtered_points_subseq_coerced_witness:
  "filtered_points demo_lib demo_points all_filter =
     Inr \<lparr>columns = demo_columns,
          rows = [rows demo_points ! 0, rows demo_points ! 2]\<rparr> \<and>
   list_all coords_numeric (rows demo_points) \<and>
   subseq [rows demo_points ! 0, rows demo_points ! 2] (rows demo_points)"
proof -
  have h: "filtered_points demo_lib demo_points all_filter =
     Inr \<lparr>columns = demo_columns, rows = [rows demo_points ! 0, rows demo_points ! 2]\<rparr>"
    by (simp add: demo_simps)
  have n: "list_all coords_numeric (rows demo_points)"
    by (simp add: demo_points_def coords_numeric_def)
  then have "\<forall>r \<in> set (rows demo_points). coords_numeric r"
    by (simp add: list_all_iff)
  with filtered_points_subseq_coerced [OF h] h n show ?thesis
    by simp
qed

section \<open>C2: the coordinate filter\<close>

lemma has_coords_present: "has_coords L r \<Longrightarrow> coords_present r"
  by (auto simp: has_coords_def coords_present_def to_numeric_cell_def)

lemma coords_present_coerce: "has_coords L r \<Longrightarrow> coords_present (coerce_coords L r)"
  by (simp add: has_coords_def coords_present_def cell_at_coerce)

lemma coord_frame_present:
  "coord_frame L (df\<lparr>rows := filter coords_present (rows df)\<rparr>) = coord_frame L df"
proof -
  have "filter (has_coords L) (filter coords_present (rows df)) = filter (has_coords L) (rows df)"
    by (auto simp: has_coords_present intro: filter_cong)
  then show ?thesis
    by (simp add: coord_frame_def)
qed

text \<open>
  C2: under every filter state, dropping beforehand the rows that miss a latitude or a
  longitude changes nothing in what \<open>filtered_points\<close> returns or raises (the
  coordinate filter runs before the predicate of the variant), and every record returned
  has both coordinates and comes from an input record that has both.
\<close>

theorem coordinate_filter_first:
  "filtered_points L df mf =
     filtered_points L (df\<lparr>rows := filter coords_present (rows df)\<rparr>) mf \<and>
   (\<forall>out. filtered_points L df mf = Inr out \<longrightarrow>
      (\<forall>r' \<in> set (rows out). coords_present r' \<and>
         (\<exists>r \<in> set (rows df). coords_present r \<and> r' = coerce_coords L r)))"
proof (intro conjI allI impI ballI)
  show "filtered_points L df mf =
          filtered_points L (df\<lparr>rows := filter coords_present (rows df)\<rparr>) mf"
    by (rule filtered_points_cong [symmetric]) (simp_all add: coord_frame_present)
next
  fix out r'
  assume "filtered_points L df mf = Inr out" and "r' \<in> set (rows out)"
  then obtain r where r: "r \<in> set (rows df)" "has_coords L r" "r' = coerce_coords L r"
    by (auto simp: rows_filtered_points)
  then show "coords_present r'"
    by (simp add: coords_present_coerce)
  from r show "\<exists>r \<in> set (rows df). coords_present r \<and> r' = coerce_coords L r"
    by (blast intro: has_coords_present)
qed

text \<open>C2 on a frame whose second row has no latitude.\<close>

theorem coordinate_filter_first_witness:
  "filtered_points demo_lib demo_points [''kind'' \<mapsto> Str ''FLAG_INCONSISTENCIA''] =
     Inr \<lparr>columns = demo_columns, rows = [rows demo_points ! 0]\<rparr> \<and>
   \<not> coords_present (rows demo_points ! 1) \<and>
   coords_present (rows demo_points ! 0) \<and>
   (\<exists>r \<in> set (rows demo_points).
      coords_present r \<and> rows demo_points ! 0 = coerce_coords demo_lib r)"
proof -
  have h: "filtered_points demo_lib demo_points [''kind'' \<mapsto> Str ''FLAG_INCONSISTENCIA''] =
     Inr \<lparr>columns = demo_columns, rows = [rows demo_points ! 0]\<rparr>"
    by (simp add: demo_simps)
  have n: "\<not> coords_present (rows demo_points ! 1)"
    by (simp add: demo_points_def coords_present_def cell_at_def)
  from coordinate_filter_first
         [of demo_lib demo_points "[''kind'' \<mapsto> Str ''FLAG_INCONSISTENCIA'']"] h n
  show ?thesis by simp
qed

section \<open>C10: a frame without a coordinate column\<close>

text \<open>
  C10: when the frame has no latitude column or no longitude column,
  \<open>filtered_points\<close> returns the frame with no rows and raises nothing, whatever
  the filter state and the other columns.
\<close>

theorem no_coordinate_column_empty:
  "''latitud'' \<notin> set (columns df) \<or> ''longitud'' \<notin> set (columns df) \<Longrightarrow>
   filtered_points L df mf = Inr (df\<lparr>rows := []\<rparr>)"
  by (rule filtered_points_no_coords) auto

text \<open>C10 on a frame without the latitude column.\<close>

theorem no_coordinate_column_empty_witness:
  "''latitud'' \<notin> set (columns demo_no_latitud) \<and>
   filtered_points demo_lib demo_no_latitud [''kind'' \<mapsto> Str ''SNIP'', ''snip'' \<mapsto> Num 1] =
     Inr \<lparr>columns = [''snip'', ''longitud''], rows = []\<rparr>"
proof -
  have h: "''latitud'' \<notin> set (columns demo_no_latitud)"
    by (simp add: demo_no_latitud_def)
  then have "''latitud'' \<notin> set (columns demo_no_latitud) \<or>
             ''longitud'' \<notin> set (columns demo_no_latitud)" ..
  from no_coordinate_column_empty
         [OF this, of demo_lib "[''kind'' \<mapsto> Str ''SNIP'', ''snip'' \<mapsto> Num 1]"] h
  show ?thesis by (simp add: demo_no_latitud_def)
qed

section \<open>C3, C5: the session state and the rerun signal\<close>

lemma dict_neq: "m k \<noteq> n k \<Longrightarrow> m \<noteq> n"
  by auto

lemma dict_ne_iff:
  "dict_ne same d1 d2 = (d2 \<noteq> d1 \<or> (\<exists>k. d2 k = Some Missing \<and> \<not> same k))"
proof (cases "d2 = d1")
  case True
  have "(case d1 k of None \<Rightarrow> d1 k = None
         | Some a \<Rightarrow> (case d1 k of None \<Rightarrow> False | Some b \<Rightarrow> value_eq (same k) a b))
        = (d1 k = Some Missing \<longrightarrow> same k)" for k
    by (cases "d1 k") (auto simp: value_eq_def)
  with True show ?thesis
    by (simp add: dict_ne_def)
next
  case False
  then obtain k where k: "d1 k \<noteq> d2 k"
    by (metis ext)
  have "\<not> (case d1 k of None \<Rightarrow> d2 k = None
            | Some a \<Rightarrow> (case d2 k of None \<Rightarrow> False | Some b \<Rightarrow> value_eq (same k) a b))"
    using k by (cases "d1 k"; cases "d2 k") (auto simp: value_eq_def)
  then have "dict_ne same d1 d2"
    unfolding dict_ne_def by blast
  with False show ?thesis
    by simp
qed

lemma dict_ne_no_missing:
  "\<forall>k. d2 k \<noteq> Some Missing \<Longrightarrow> dict_ne same d1 d2 = (d2 \<noteq> d1)"
  by (simp add: dict_ne_iff)



text \<open>
  C5: \<open>reset_map\<close> is \<open>set_map_filter\<close> on \<open>ALL\<close> with an empty payload
  (whatever objects the values are); it
  leaves the filter \<open>{kind: ALL}\<close> from every prior state, and asks for a rerun exactly
  when the prior filter was another one.
\<close>

theorem reset_map_is_set_all:
  "reset_map s = set_map_filter same ''ALL'' Map.empty s \<and>
   fst (reset_map s) ''map_filter'' = Some all_filter \<and>
   current_filter (fst (reset_map s)) = all_filter \<and>
   snd (reset_map s) = (current_filter s \<noteq> all_filter)"
proof -
  have "\<forall>k. all_filter k \<noteq> Some Missing"
    by (simp add: all_filter_def)
  then have "dict_ne same (current_filter s) all_filter = (current_filter s \<noteq> all_filter)"
    by (auto simp: dict_ne_no_missing)
  then have "reset_map s = set_map_filter same ''ALL'' Map.empty s"
    by (simp add: reset_map_def set_map_filter_def all_filter_def Let_def)
  moreover have "fst (reset_map s) ''map_filter'' = Some all_filter"
    and "current_filter (fst (reset_map s)) = all_filter"
    and "snd (reset_map s) = (current_filter s \<noteq> all_filter)"
    by (simp_all add: reset_map_def current_filter_def Let_def)
  ultimately show ?thesis
    by blast
qed

text \<open>C5 from a session that shows one project, and from one that shows all.\<close>

theorem reset_map_is_set_all_witness:
  "current_filter demo_session \<noteq> all_filter \<and>
   snd (reset_map demo_session) \<and>
   current_filter (fst (reset_map demo_session)) = all_filter \<and>
   reset_map demo_session = set_map_filter demo_fresh ''ALL'' Map.empty demo_session \<and>
   \<not> snd (reset_map [''map_filter'' \<mapsto> all_filter])"
proof -
  have n: "current_filter demo_session \<noteq> all_filter"
    by (rule dict_neq [where k = "''snip''"])
       (simp add: all_filter_def current_filter_def demo_session_def)
  have a: "current_filter [''map_filter'' \<mapsto> all_filter] = all_filter"
    by (simp add: current_filter_def)
  note t1 = reset_map_is_set_all [of demo_session demo_fresh]
    and t2 = reset_map_is_set_all [of "[''map_filter'' \<mapsto> all_filter]" demo_fresh]
  have 1: "snd (reset_map demo_session)"
    using t1 n by blast
  have 2: "current_filter (fst (reset_map demo_session)) = all_filter"
    using t1 by blast
  have 3: "reset_map demo_session = set_map_filter demo_fresh ''ALL'' Map.empty demo_session"
    using t1 by blast
  have 4: "\<not> snd (reset_map [''map_filter'' \<mapsto> all_filter])"
    using t2 a by blast
  from n 1 2 3 4 show ?thesis
    by blast
qed

section \<open>C4: a kind outside the known ones\<close>

lemma kind_new_filter:
  "''kind'' \<notin> dom payload \<Longrightarrow> dict_get (new_filter kind payload) ''kind'' dflt = Str kind"
  by (simp add: dict_get_def new_filter_def map_add_def domIff)

lemma filtered_points_all:
  assumes "''latitud'' \<in> set (columns df)" and "''longitud'' \<in> set (columns df)"
    and "dict_get mf ''kind'' (Str ''ALL'') = Str ''ALL''"
  shows "filtered_points L df mf = Inr (coord_frame L df)"
  using assms by (simp add: fp_simps Let_def)

lemma filtered_points_unknown:
  assumes "''latitud'' \<in> set (columns df)" and "''longitud'' \<in> set (columns df)"
    and "dict_get mf ''kind'' (Str ''ALL'') = Str kind" and "kind \<notin> set known_kinds"
  shows "filtered_points L df mf = Inr (coord_frame L df)"
  using assms by (simp add: fp_simps Let_def known_kinds_def)

text \<open>
  C4, as stated, fails: \<open>set_map_filter\<close> stores a filter of the kind \<open>TYPO\<close> and
  asks for a rerun, and \<open>filtered_points\<close> then returns every point with
  coordinates; nothing is raised.
\<close>

theorem unknown_kind_is_accepted:
  "set_map_filter demo_fresh ''TYPO'' Map.empty demo_session =
     (demo_session(''map_filter'' \<mapsto> [''kind'' \<mapsto> Str ''TYPO'']), True) \<and>
   filtered_points demo_lib demo_points [''kind'' \<mapsto> Str ''TYPO''] =
     Inr \<lparr>columns = demo_columns, rows = [rows demo_points ! 0, rows demo_points ! 2]\<rparr>"
proof -
  have "current_filter demo_session \<noteq> [''kind'' \<mapsto> Str ''TYPO'']"
    by (rule dict_neq [where k = "''kind''"]) (simp add: current_filter_def demo_session_def)
  then have "set_map_filter demo_fresh ''TYPO'' Map.empty demo_session =
     (demo_session(''map_filter'' \<mapsto> [''kind'' \<mapsto> Str ''TYPO'']), True)"
    by (auto simp: set_map_filter_def dict_ne_iff)
  moreover have "filtered_points demo_lib demo_points [''kind'' \<mapsto> Str ''TYPO''] =
     Inr \<lparr>columns = demo_columns, rows = [rows demo_points ! 0, rows demo_points ! 2]\<rparr>"
    by (simp add: demo_simps)
  ultimately show ?thesis ..
qed

text \<open>
  C4 (amended): for a kind outside the known ones (and a payload without a \<open>kind\<close>
  key), \<open>set_map_filter\<close> stores the filter, and \<open>filtered_points\<close> returns on it
  what it returns on \<open>{kind: ALL}\<close>.
\<close>

theorem unknown_kind_selects_as_all:
  assumes "kind \<notin> set known_kinds" and "''kind'' \<notin> dom payload"
  shows "fst (set_map_filter same kind payload s) ''map_filter'' =
           Some (new_filter kind payload) \<and>
         filtered_points L df (new_filter kind payload) = filtered_points L df all_filter"
proof
  show "fst (set_map_filter same kind payload s) ''map_filter'' = Some (new_filter kind payload)"
    by (simp add: set_map_filter_def new_filter_def Let_def)
  show "filtered_points L df (new_filter kind payload) = filtered_points L df all_filter"
  proof (cases "{''latitud'', ''longitud''} \<subseteq> set (columns df)")
    case True
    then have c: "''latitud'' \<in> set (columns df)" "''longitud'' \<in> set (columns df)"
      by simp_all
    have "dict_get all_filter ''kind'' (Str ''ALL'') = Str ''ALL''"
      by (simp add: dict_get_def all_filter_def)
    from filtered_points_all [OF c this]
         filtered_points_unknown [OF c kind_new_filter [OF assms(2)] assms(1)]
    show ?thesis by simp
  next
    case False
    then show ?thesis
      by (simp add: filtered_points_no_coords)
  qed
qed

text \<open>The amended C4 on the kind \<open>TYPO\<close>.\<close>

theorem unknown_kind_selects_as_all_witness:
  "''TYPO'' \<notin> set known_kinds \<and> ''kind'' \<notin> dom (Map.empty :: pydict) \<and>
   fst (set_map_filter demo_fresh ''TYPO'' Map.empty demo_session) ''map_filter'' =
     Some [''kind'' \<mapsto> Str ''TYPO''] \<and>
   filtered_points demo_lib demo_points [''kind'' \<mapsto> Str ''TYPO''] =
     filtered_points demo_lib demo_points all_filter"
proof -
  have k: "''TYPO'' \<notin> set known_kinds"
    by (simp add: known_kinds_def)
  have p: "''kind'' \<notin> dom (Map.empty :: pydict)"
    by simp
  from unknown_kind_selects_as_all
         [OF k p, where same = demo_fresh and s = demo_session and L = demo_lib
            and df = demo_points] k p
  show ?thesis
    by (simp add: new_filter_def)
qed

section \<open>C6: the inconsistency flag\<close>

lemma flag_is_one_boolean: "flag_boolean a \<Longrightarrow> flag_is_one L a = flag_truthy a"
  by (auto simp: flag_boolean_def flag_is_one_def flag_truthy_def int_of_cell_def trunc_rat_def)

lemma int_of_cell_boolean:
  "flag_boolean a \<Longrightarrow> \<exists>i. int_of_cell L (if a = Missing then Num 0 else a) = Inr i"
  by (auto simp: flag_boolean_def int_of_cell_def)

lemma row_selected_coerce: "row_selected L mf (coerce_coords L r) = row_selected L mf r"
  by (simp add: row_selected_def cell_at_coerce)

lemma filtered_points_flag:
  assumes "''latitud'' \<in> set (columns df)" and "''longitud'' \<in> set (columns df)"
    and "''flag_inconsistencia_estado_momento'' \<in> set (columns df)"
    and "dict_get mf ''kind'' (Str ''ALL'') = Str ''FLAG_INCONSISTENCIA''"
  shows "filtered_points L df mf =
           bind_err (astype_int L (fillna0 (map (\<lambda>r. cell_at r ''flag_inconsistencia_estado_momento'')
                       (rows (coord_frame L df)))))
             (\<lambda>fi. Inr (loc_mask (coord_frame L df) (map (\<lambda>i. i = 1) fi)))"
  using assms by (simp add: fp_simps Let_def columns_coord_frame split: sum.splits)

text \<open>
  C6: on a frame that has the coordinate columns and the flag column, with flags that are
  0, 1 or missing, \<open>filtered_points\<close> under \<open>FLAG_INCONSISTENCIA\<close> returns exactly
  the points with coordinates whose flag is truthy, in order; a missing flag counts as
  false, so its point is left out.
\<close>

theorem flag_filter_selects_truthy:
  assumes "''latitud'' \<in> set (columns df)" and "''longitud'' \<in> set (columns df)"
    and "''flag_inconsistencia_estado_momento'' \<in> set (columns df)"
    and "dict_get mf ''kind'' (Str ''ALL'') = Str ''FLAG_INCONSISTENCIA''"
    and "\<forall>r \<in> set (rows df). flag_boolean (cell_at r ''flag_inconsistencia_estado_momento'')"
  shows "filtered_points L df mf =
           Inr (df\<lparr>rows := map (coerce_coords L)
                   (filter (\<lambda>r. has_coords L r \<and>
                                 flag_truthy (cell_at r ''flag_inconsistencia_estado_momento''))
                      (rows df))\<rparr>)"
proof -
  let ?c = "''flag_inconsistencia_estado_momento''"
  let ?d = "coord_frame L df"
  have b: "\<forall>r \<in> set (rows ?d). flag_boolean (cell_at r ?c)"
    using assms(5) by (auto simp: coord_frame_def cell_at_coerce)
  have "\<forall>a \<in> set (fillna0 (map (\<lambda>r. cell_at r ?c) (rows ?d))). \<exists>i. int_of_cell L a = Inr i"
    using b by (auto simp: fillna0_def flag_boolean_def int_of_cell_def)
  from mapM_err_total [OF this] obtain fi
    where fi: "astype_int L (fillna0 (map (\<lambda>r. cell_at r ?c) (rows ?d))) = Inr fi"
    by (auto simp: astype_int_def)
  have "filter (\<lambda>r. flag_is_one L (cell_at r ?c)) (rows ?d) =
        filter (\<lambda>r. flag_truthy (cell_at r ?c)) (rows ?d)"
    using b by (intro filter_cong refl) (simp add: flag_is_one_boolean)
  also have "\<dots> = map (coerce_coords L)
                    (filter (\<lambda>r. has_coords L r \<and> flag_truthy (cell_at r ?c)) (rows df))"
    by (simp add: coord_frame_def filter_map comp_def cell_at_coerce)
  finally have e: "filter (\<lambda>r. flag_is_one L (cell_at r ?c)) (rows ?d) =
      map (coerce_coords L)
        (filter (\<lambda>r. has_coords L r \<and> flag_truthy (cell_at r ?c)) (rows df))" .
  have "loc_mask ?d (map (\<lambda>i. i = 1) fi) =
          ?d\<lparr>rows := filter (\<lambda>r. flag_is_one L (cell_at r ?c)) (rows ?d)\<rparr>"
    by (rule loc_mask_flag [OF fi])
  also have "\<dots> = df\<lparr>rows := map (coerce_coords L)
                   (filter (\<lambda>r. has_coords L r \<and> flag_truthy (cell_at r ?c)) (rows df))\<rparr>"
    unfolding e by (simp add: coord_frame_def)
  finally have "loc_mask ?d (map (\<lambda>i. i = 1) fi) =
      df\<lparr>rows := map (coerce_coords L)
                   (filter (\<lambda>r. has_coords L r \<and> flag_truthy (cell_at r ?c)) (rows df))\<rparr>" .
  with filtered_points_flag [OF assms(1-4), of L] fi show ?thesis
    by (simp add: bind_err_def)
qed

text \<open>C6 on a frame whose third row has coordinates and a missing flag.\<close>

theorem flag_filter_selects_truthy_witness:
  "list_all (\<lambda>r. flag_boolean (cell_at r ''flag_inconsistencia_estado_momento''))
     (rows demo_points) \<and>
   cell_at (rows demo_points ! 2) ''flag_inconsistencia_estado_momento'' = Missing \<and>
   filtered_points demo_lib demo_points [''kind'' \<mapsto> Str ''FLAG_INCONSISTENCIA''] =
     Inr \<lparr>columns = demo_columns, rows = [rows demo_points ! 0]\<rparr>"
proof -
  have b: "list_all (\<lambda>r. flag_boolean (cell_at r ''flag_inconsistencia_estado_momento''))
     (rows demo_points)"
    by (simp add: demo_points_def flag_boolean_def cell_at_def)
  then have b': "\<forall>r \<in> set (rows demo_points).
      flag_boolean (cell_at r ''flag_inconsistencia_estado_momento'')"
    by (simp add: list_all_iff)
  have c: "''latitud'' \<in> set (columns demo_points)" "''longitud'' \<in> set (columns demo_points)"
    "''flag_inconsistencia_estado_momento'' \<in> set (columns demo_points)"
    by (simp_all add: demo_points_def demo_columns_def)
  have k: "dict_get [''kind'' \<mapsto> Str ''FLAG_INCONSISTENCIA''] ''kind'' (Str ''ALL'') =
      Str ''FLAG_INCONSISTENCIA''"
    by (simp add: dict_get_def)
  have m: "cell_at (rows demo_points ! 2) ''flag_inconsistencia_estado_momento'' = Missing"
    by (simp add: demo_points_def cell_at_def)
  from flag_filter_selects_truthy [OF c k b', of demo_lib] b m show ?thesis
    by (simp add: demo_points_def demo_lib_def has_coords_def flag_truthy_def cell_at_def
          to_numeric_cell_def coerce_coords_def)
qed

section \<open>C7: an empty selection\<close>

lemma filtered_points_returns:
  assumes "set (filter_columns k) \<subseteq> set (columns df)"
    and "dict_get mf ''kind'' (Str ''ALL'') = Str k" and "k \<noteq> ''FLAG_INCONSISTENCIA''"
  shows "\<exists>out. filtered_points L df mf = Inr out"
proof (cases "{''latitud'', ''longitud''} \<subseteq> set (columns df)")
  case True
  with assms show ?thesis
    by (simp add: fp_simps Let_def columns_coord_frame filter_columns_def split: if_splits)
next
  case False
  then show ?thesis
    by (simp add: filtered_points_no_coords)
qed

lemma render_map_empty:
  "df_empty d \<Longrightarrow> render_map W d title = Inr (Info no_points_notice)"
  by (simp add: render_map_def no_points_notice_def)

text \<open>
  C7: an empty result of \<open>filtered_points\<close> is rendered by \<open>render_map\<close> as the
  notice that there are no points for the current filter; under \<open>SNIP\<close>, on a frame
  with the \<open>snip\<close> column where no row has the identifier asked for,
  \<open>filtered_points\<close> returns the frame without rows and raises nothing; and under every
  kind but the flag one it returns whenever the columns the kind reads are there.
\<close>

theorem empty_selection_is_no_error:
  "(filtered_points L df mf = Inr out \<and> rows out = [] \<longrightarrow>
      render_map W out title = Inr (Info ''No hay puntos para el filtro actual.'')) \<and>
   (''snip'' \<in> set (columns df) \<and> dict_get mf ''kind'' (Str ''ALL'') = Str ''SNIP'' \<and>
    (\<forall>r \<in> set (rows df). \<not> cell_eq (cell_at r ''snip'') (dict_get mf ''snip'' Missing)) \<longrightarrow>
      filtered_points L df mf = Inr (df\<lparr>rows := []\<rparr>)) \<and>
   (set (filter_columns k) \<subseteq> set (columns df) \<and> dict_get mf ''kind'' (Str ''ALL'') = Str k \<and>
    k \<noteq> ''FLAG_INCONSISTENCIA'' \<longrightarrow> (\<exists>res. filtered_points L df mf = Inr res))"
proof (intro conjI impI)
  assume "filtered_points L df mf = Inr out \<and> rows out = []"
  then have "df_empty out"
    by (simp add: df_empty_def)
  from render_map_empty [OF this]
  show "render_map W out title = Inr (Info ''No hay puntos para el filtro actual.'')"
    by (simp add: no_points_notice_def)
next
  assume a: "''snip'' \<in> set (columns df) \<and> dict_get mf ''kind'' (Str ''ALL'') = Str ''SNIP'' \<and>
    (\<forall>r \<in> set (rows df). \<not> cell_eq (cell_at r ''snip'') (dict_get mf ''snip'' Missing))"
  then have "set (filter_columns ''SNIP'') \<subseteq> set (columns df)"
    by (simp add: filter_columns_def)
  from filtered_points_returns [OF this, of mf L] a
  obtain res where res: "filtered_points L df mf = Inr res"
    by auto
  have "\<not> row_selected L mf r" if "r \<in> set (rows df)" for r
    using a that by (simp add: row_selected_def)
  then have "rows res = []"
    by (simp add: rows_filtered_points [OF res] row_selected_coerce)
  moreover have "columns res = columns df"
    by (rule columns_filtered_points [OF res])
  ultimately have "res = df\<lparr>rows := []\<rparr>"
    by (intro dataframe.equality) simp_all
  with res show "filtered_points L df mf = Inr (df\<lparr>rows := []\<rparr>)"
    by simp
next
  assume "set (filter_columns k) \<subseteq> set (columns df) \<and>
    dict_get mf ''kind'' (Str ''ALL'') = Str k \<and> k \<noteq> ''FLAG_INCONSISTENCIA''"
  then show "\<exists>res. filtered_points L df mf = Inr res"
    by (blast intro: filtered_points_returns)
qed

text \<open>C7 on the identifier 12345, which no row has.\<close>

theorem empty_selection_is_no_error_witness:
  "''snip'' \<in> set (columns demo_points) \<and>
   list_all (\<lambda>r. \<not> cell_eq (cell_at r ''snip'') (Num 12345)) (rows demo_points) \<and>
   filtered_points demo_lib demo_points [''kind'' \<mapsto> Str ''SNIP'', ''snip'' \<mapsto> Num 12345] =
     Inr \<lparr>columns = demo_columns, rows = []\<rparr> \<and>
   render_map demo_widgets \<lparr>columns = demo_columns, rows = []\<rparr> ''Mapa'' =
     Inr (Info ''No hay puntos para el filtro actual.'')"
proof -
  let ?mf = "[''kind'' \<mapsto> Str ''SNIP'', ''snip'' \<mapsto> Num 12345]"
  let ?out = "\<lparr>columns = demo_columns, rows = []\<rparr>"
  have c: "''snip'' \<in> set (columns demo_points)"
    by (simp add: demo_points_def demo_columns_def)
  have k: "dict_get ?mf ''kind'' (Str ''ALL'') = Str ''SNIP''"
    and v: "dict_get ?mf ''snip'' Missing = Num 12345"
    by (simp_all add: dict_get_def)
  have n: "list_all (\<lambda>r. \<not> cell_eq (cell_at r ''snip'') (Num 12345)) (rows demo_points)"
    by (simp add: demo_points_def cell_eq_def cell_at_def)
  then have n': "\<forall>r \<in> set (rows demo_points).
      \<not> cell_eq (cell_at r ''snip'') (dict_get ?mf ''snip'' Missing)"
    by (simp only: v list_all_iff)
  note t = empty_selection_is_no_error [where L = demo_lib and df = demo_points and mf = ?mf and out = ?out
      and W = demo_widgets and title = "''Mapa''" and k = "''SNIP''"]
  from t c k n' have 1: "filtered_points demo_lib demo_points ?mf = Inr (demo_points\<lparr>rows := []\<rparr>)"
    by blast
  then have 2: "filtered_points demo_lib demo_points ?mf = Inr ?out"
    by (simp add: demo_points_def)
  with t have "render_map demo_widgets ?out ''Mapa'' =
      Inr (Info ''No hay puntos para el filtro actual.'')"
    by simp
  with c n 2 show ?thesis
    by simp
qed

section \<open>C8: the cap on rendered points\<close>

lemma render_map_view:
  assumes "render_map W d title = Inr (MapView t c ms n k)"
  shows "mapM_err (circle_marker W) (take max_markers (rows d)) = Inr ms \<and>
         n = length (rows d) \<and> k = min (length (rows d)) max_markers \<and> t = title"
  using assms
  by (auto simp: render_map_def bind_err_def head_df_def Let_def split: if_splits sum.splits)

lemma mapM_err_length: "mapM_err f xs = Inr ys \<Longrightarrow> length ys = length xs"
  using mapM_err_Inr [of f xs ys] by (metis length_map)

text \<open>
  C8: \<open>filtered_points\<close> returns every row with coordinates that the filter selects,
  however many; \<open>render_map\<close> draws one marker for each of the first 5000 rows of
  the frame it is given, in their order, and its caption counts all rows and the rows
  shown.
\<close>

theorem cap_only_when_rendering:
  "(filtered_points L df mf = Inr out \<longrightarrow>
      rows out = map (coerce_coords L)
        (filter (\<lambda>r. {''latitud'', ''longitud''} \<subseteq> set (columns df) \<and> has_coords L r \<and>
                      row_selected L mf r) (rows df))) \<and>
   (render_map W out title = Inr (MapView t c ms n k) \<longrightarrow>
      map (circle_marker W) (take 5000 (rows out)) = map Inr ms \<and>
      prefix (take 5000 (rows out)) (rows out) \<and>
      length ms = min (length (rows out)) 5000 \<and>
      n = length (rows out) \<and> k = min (length (rows out)) 5000)"
proof (intro conjI impI)
  assume "filtered_points L df mf = Inr out"
  from rows_filtered_points [OF this]
  show "rows out = map (coerce_coords L)
        (filter (\<lambda>r. {''latitud'', ''longitud''} \<subseteq> set (columns df) \<and> has_coords L r \<and>
                      row_selected L mf r) (rows df))"
    by (simp add: row_selected_coerce)
next
  assume "render_map W out title = Inr (MapView t c ms n k)"
  from render_map_view [OF this]
  have m: "mapM_err (circle_marker W) (take 5000 (rows out)) = Inr ms"
    and n: "n = length (rows out)" and k: "k = min (length (rows out)) 5000"
    by (simp_all add: max_markers_def)
  from mapM_err_Inr [OF m] show "map (circle_marker W) (take 5000 (rows out)) = map Inr ms" .
  show "prefix (take 5000 (rows out)) (rows out)"
    by (rule take_is_prefix)
  from mapM_err_length [OF m] show "length ms = min (length (rows out)) 5000"
    by simp
  from n show "n = length (rows out)" .
  from k show "k = min (length (rows out)) 5000" .
qed

lemma mapM_err_Inr_fun:
  "(\<forall>x \<in> set xs. f x = Inr (g x)) \<Longrightarrow> mapM_err f xs = Inr (map g xs)"
  by (induction xs) (simp_all add: bind_err_def)

text \<open>C8 on 5001 points: all are selected, the first 5000 are drawn.\<close>

theorem cap_only_when_rendering_witness:
  "filtered_points demo_lib demo_many all_filter = Inr demo_many \<and>
   length (rows demo_many) = 5001 \<and>
   render_map demo_widgets demo_many ''Mapa'' =
     Inr (MapView ''Mapa'' (0, 0) (take 5000 (rows demo_many)) 5001 5000) \<and>
   prefix (take 5000 (rows demo_many)) (rows demo_many)"
proof -
  let ?r = "[(''latitud'', Num 15), (''longitud'', Num (- 90))]"
  have hc: "has_coords demo_lib ?r" and cc: "coerce_coords demo_lib ?r = ?r"
    by (simp_all add: has_coords_def coerce_coords_def cell_at_def to_numeric_cell_def)
  have "coord_frame demo_lib demo_many = demo_many"
    by (simp add: coord_frame_def demo_many_def filter_replicate hc cc)
  moreover have "filtered_points demo_lib demo_many all_filter = Inr (coord_frame demo_lib demo_many)"
    by (rule filtered_points_all) (simp_all add: demo_many_def dict_get_def all_filter_def)
  ultimately have f: "filtered_points demo_lib demo_many all_filter = Inr demo_many"
    by simp
  have l: "length (rows demo_many) = 5001"
    by (simp add: demo_many_def)
  have "mapM_err (circle_marker demo_widgets) (take 5000 (rows demo_many)) =
          Inr (map (\<lambda>r. r) (take 5000 (rows demo_many)))"
    by (rule mapM_err_Inr_fun) (simp add: demo_widgets_def)
  then have r: "render_map demo_widgets demo_many ''Mapa'' =
     Inr (MapView ''Mapa'' (0, 0) (take 5000 (rows demo_many)) 5001 5000)"
    using l by (simp add: render_map_def df_empty_def getitem_def bind_err_def head_df_def
        max_markers_def) (simp add: demo_many_def demo_widgets_def)
  from cap_only_when_rendering [where L = demo_lib and df = demo_many and mf = all_filter and out = demo_many
      and W = demo_widgets and title = "''Mapa''" and t = "''Mapa''" and c = "(0, 0)"
      and ms = "take 5000 (rows demo_many)" and n = 5001 and k = 5000] f l r
  show ?thesis
    by simp
qed

section \<open>C9: a column that the data set lacks\<close>












end
